theory Spec2Isabelle
  imports Main
begin

section \<open>Data model of main.go\<close>

text \<open>
  The text of a Go \<^verbatim>\<open>error\<close> value (what \<^verbatim>\<open>%s\<close> prints), and the one run-time
  panic the program can raise: indexing a slice out of range.
\<close>

type_synonym go_error = string

datatype go_panic = IndexOutOfRange

text \<open>
  \<^verbatim>\<open>ExternalBookDetails\<close> (main.go, lines 32-98), inside out. The anonymous struct types
  get the names \<open>IndustryIdentifier\<close>, \<open>VolumeInfo_struct\<close> and \<open>Item_struct\<close>; field names
  are the source's. The nested structs that no function of the program reads
  (\<^verbatim>\<open>ReadingModes\<close>, \<^verbatim>\<open>PanelizationSummary\<close>, \<^verbatim>\<open>ImageLinks\<close>, \<^verbatim>\<open>SaleInfo\<close>,
  \<^verbatim>\<open>AccessInfo\<close>, \<^verbatim>\<open>SearchInfo\<close>) are left out. Go's \<^verbatim>\<open>int\<close> is modelled by \<open>int\<close>:
  the program copies such values and never computes with them.
\<close>

record IndustryIdentifier =
  Type :: string
  Identifier :: string

record VolumeInfo_struct =
  Title :: string
  Authors :: "string list"
  Publisher :: string
  PublishedDate :: string
  Description :: string
  IndustryIdentifiers :: "IndustryIdentifier list"
  PageCount :: int
  PrintType :: string
  Categories :: "string list"
  MaturityRating :: string
  AllowAnonLogging :: bool
  ContentVersion :: string
  Language :: string
  PreviewLink :: string
  InfoLink :: string
  CanonicalVolumeLink :: string

record Item_struct =
  Kind :: string
  ID :: string
  Etag :: string
  SelfLink :: string
  VolumeInfo :: VolumeInfo_struct

record ExternalBookDetails =
  Kind :: string
  TotalItems :: int
  Items :: "Item_struct list"

text \<open>\<^verbatim>\<open>BookDetails\<close> (main.go, lines 19-29), the type of the details response.\<close>

record BookDetails =
  ID :: string
  Author :: string
  Year :: string
  Type :: string
  Pages :: int
  Publisher :: string
  Language :: string
  ISBN10 :: string
  ISBN13 :: string

text \<open>The zero values Go gives a freshly declared variable of the external types.\<close>

definition zero_VolumeInfo :: VolumeInfo_struct where
  "zero_VolumeInfo =
     \<lparr>Title = [], Authors = [], VolumeInfo_struct.Publisher = [], PublishedDate = [],
      Description = [], IndustryIdentifiers = [], PageCount = 0, PrintType = [],
      Categories = [], MaturityRating = [], AllowAnonLogging = False, ContentVersion = [],
      VolumeInfo_struct.Language = [], PreviewLink = [], InfoLink = [],
      CanonicalVolumeLink = []\<rparr>"

definition zero_Item :: Item_struct where
  "zero_Item =
     \<lparr>Item_struct.Kind = [], Item_struct.ID = [], Etag = [], SelfLink = [],
      VolumeInfo = zero_VolumeInfo\<rparr>"

definition zero_ExternalBookDetails :: ExternalBookDetails where
  "zero_ExternalBookDetails = \<lparr>Kind = [], TotalItems = 0, Items = []\<rparr>"

section \<open>What the program runs in\<close>

text \<open>
  A response of \<^verbatim>\<open>http.Get\<close>, as far as the program looks at it: what
  \<^verbatim>\<open>ioutil.ReadAll(response.Body)\<close> gives, an error or the bytes of the body.
\<close>

datatype http_Response = Response (ReadAll: "go_error + string")

text \<open>
  Everything outside main.go that the handlers depend on or act on, passed explicitly:
  \<^item> \<open>Environ\<close>: the process environment;
  \<^item> \<open>Upstream\<close>: what \<^verbatim>\<open>http.Get\<close> returns for a URL (an error or a response);
  \<^item> \<open>json_Unmarshal\<close>: the library's \<^verbatim>\<open>json.Unmarshal(body, &v)\<close> for \<open>v\<close> a zero
    \<^verbatim>\<open>ExternalBookDetails\<close>: the error it returns, if any, and what it leaves in \<open>v\<close>;
  \<^item> \<open>json_String\<close>: the library's encoding of a Go string as a JSON string literal;
  \<^item> \<open>Requests\<close>: the URLs fetched so far, in order;
  \<^item> \<open>LogOutput\<close>: the messages given to \<^verbatim>\<open>log.Printf\<close> so far, in order.
  The two library functions are parameters: the program's behaviour is stated for every
  decoder and every string encoder.
\<close>

record world =
  Environ :: "string \<rightharpoonup> string"
  Upstream :: "string \<Rightarrow> go_error + http_Response"
  json_Unmarshal :: "string \<Rightarrow> go_error option \<times> ExternalBookDetails"
  json_String :: "string \<Rightarrow> string"
  Requests :: "string list"
  LogOutput :: "string list"

text \<open>\<^verbatim>\<open>os.Getenv\<close>: the value of the variable, empty when it is not set.\<close>

definition os_Getenv :: "string \<Rightarrow> world \<Rightarrow> string" where
  "os_Getenv key w = (case Environ w key of None \<Rightarrow> [] | Some v \<Rightarrow> v)"

definition http_Get :: "string \<Rightarrow> world \<Rightarrow> (go_error + http_Response) \<times> world" where
  "http_Get url w = (Upstream w url, w\<lparr>Requests := Requests w @ [url]\<rparr>)"

definition log_Printf :: "string \<Rightarrow> world \<Rightarrow> world" where
  "log_Printf msg w = w\<lparr>LogOutput := LogOutput w @ [msg]\<rparr>"

subsection \<open>The response writer\<close>

text \<open>
  \<^verbatim>\<open>http.ResponseWriter\<close>: the header map, the status code once it is written, the body
  written so far. A second \<^verbatim>\<open>WriteHeader\<close> is ignored, and the first \<^verbatim>\<open>Write\<close> sends
  status 200 when none was written.
\<close>

record ResponseWriter =
  Header :: "string \<rightharpoonup> string"
  StatusCode :: "nat option"
  Body :: string

definition new_ResponseWriter :: ResponseWriter where
  "new_ResponseWriter = \<lparr>Header = Map.empty, StatusCode = None, Body = []\<rparr>"

definition Header_Set :: "string \<Rightarrow> string \<Rightarrow> ResponseWriter \<Rightarrow> ResponseWriter" where
  "Header_Set key v rw = rw\<lparr>Header := (Header rw)(key \<mapsto> v)\<rparr>"

definition WriteHeader :: "nat \<Rightarrow> ResponseWriter \<Rightarrow> ResponseWriter" where
  "WriteHeader code rw =
     (if StatusCode rw = None then rw\<lparr>StatusCode := Some code\<rparr> else rw)"

definition Write :: "string \<Rightarrow> ResponseWriter \<Rightarrow> ResponseWriter" where
  "Write s rw = (let rw' = WriteHeader 200 rw in rw'\<lparr>Body := Body rw' @ s\<rparr>)"

text \<open>
  \<^verbatim>\<open>http.Error\<close>: plain-text content type, the \<^verbatim>\<open>nosniff\<close> option, the status code, and
  the message followed by a newline.
\<close>

definition http_Error :: "string \<Rightarrow> nat \<Rightarrow> ResponseWriter \<Rightarrow> ResponseWriter" where
  "http_Error msg code rw =
     (let rw1 = Header_Set ''Content-Type'' ''text/plain; charset=utf-8'' rw;
          rw2 = Header_Set ''X-Content-Type-Options'' ''nosniff'' rw1;
          rw3 = WriteHeader code rw2
      in Write (msg @ ''\<newline>'') rw3)"

text \<open>A request, as far as the handlers look at it: \<^verbatim>\<open>mux.Vars(r)\<close>.\<close>

record http_Request =
  Method :: string
  Path :: string
  mux_Vars :: "string \<rightharpoonup> string"

subsection \<open>The JSON encoder on \<^verbatim>\<open>*BookDetails\<close>\<close>

fun digits :: "nat \<Rightarrow> string" where
  "digits n =
     (if n < 10 then [''0123456789'' ! n]
      else digits (n div 10) @ [''0123456789'' ! (n mod 10)])"

definition itoa :: "int \<Rightarrow> string" where
  "itoa i = (if i < 0 then ''-'' @ digits (nat (- i)) else digits (nat i))"

text \<open>A member tagged \<^verbatim>\<open>omitempty\<close> is left out when its value is the empty string or 0.\<close>

definition member_string :: "(string \<Rightarrow> string) \<Rightarrow> string \<Rightarrow> string \<Rightarrow> string list" where
  "member_string q key v = (if v = [] then [] else [''\"'' @ key @ ''\":'' @ q v])"

definition member_int :: "string \<Rightarrow> int \<Rightarrow> string list" where
  "member_int key i = (if i = 0 then [] else [''\"'' @ key @ ''\":'' @ itoa i])"

fun join :: "string \<Rightarrow> string list \<Rightarrow> string" where
  "join sep [] = []"
| "join sep [x] = x"
| "join sep (x # y # ys) = x @ sep @ join sep (y # ys)"

definition json_Marshal :: "(string \<Rightarrow> string) \<Rightarrow> BookDetails \<Rightarrow> string" where
  "json_Marshal q b =
     ''{'' @ join '',''
       (member_string q ''id'' (ID b) @
        member_string q ''author'' (Author b) @
        member_string q ''year'' (Year b) @
        member_string q ''type'' (Type b) @
        member_int ''pages'' (Pages b) @
        member_string q ''publisher'' (Publisher b) @
        member_string q ''language'' (Language b) @
        member_string q ''ISBN-10'' (ISBN10 b) @
        member_string q ''ISBN-13'' (ISBN13 b)) @ ''}''"

text \<open>
  \<^verbatim>\<open>json.NewEncoder(w).Encode(p)\<close> for \<open>p\<close> a \<^verbatim>\<open>*BookDetails\<close>: \<^verbatim>\<open>null\<close> for the nil
  pointer, the object otherwise, and a newline.
\<close>

definition json_Encode :: "(string \<Rightarrow> string) \<Rightarrow> BookDetails option \<Rightarrow> string" where
  "json_Encode q p =
     (case p of None \<Rightarrow> ''null'' | Some b \<Rightarrow> json_Marshal q b) @ ''\<newline>''"

section \<open>The program\<close>

subsection \<open>Field mapping (main.go, lines 170-194)\<close>

text \<open>\<open>s[0]\<close> on a Go slice: the first element, or the panic when the slice is empty.\<close>

definition index0 :: "'a list \<Rightarrow> go_panic + 'a" where
  "index0 s = (case s of [] \<Rightarrow> Inl IndexOutOfRange | x # _ \<Rightarrow> Inr x)"

text \<open>Sequencing: a panic ends the evaluation.\<close>

definition and_then :: "go_panic + 'a \<Rightarrow> ('a \<Rightarrow> go_panic + 'b) \<Rightarrow> go_panic + 'b" where
  "and_then r f = (case r of Inl p \<Rightarrow> Inl p | Inr x \<Rightarrow> f x)"

definition getPrintType :: "ExternalBookDetails \<Rightarrow> go_panic + string" where
  "getPrintType externalBookDetails =
     and_then (index0 (Items externalBookDetails)) (\<lambda>item0.
       if PrintType (VolumeInfo item0) = ''BOOK'' then Inr ''paperback''
       else Inr ''unknown'')"

definition getLanguage :: "ExternalBookDetails \<Rightarrow> go_panic + string" where
  "getLanguage externalBookDetails =
     and_then (index0 (Items externalBookDetails)) (\<lambda>item0.
       if VolumeInfo_struct.Language (VolumeInfo item0) = ''en'' then Inr ''English''
       else Inr ''unknown'')"

text \<open>The \<^verbatim>\<open>for ... range\<close> loop of \<^verbatim>\<open>getISBN\<close>, with the default after it.\<close>

fun getISBN_loop :: "string \<Rightarrow> IndustryIdentifier list \<Rightarrow> string" where
  "getISBN_loop kind [] = ''1234567890''"
| "getISBN_loop kind (industryIdentifier # rest) =
     (if IndustryIdentifier.Type industryIdentifier = kind
      then Identifier industryIdentifier
      else getISBN_loop kind rest)"

definition getISBN :: "string \<Rightarrow> ExternalBookDetails \<Rightarrow> go_panic + string" where
  "getISBN kind externalBookDetails =
     and_then (index0 (Items externalBookDetails)) (\<lambda>item0.
       Inr (getISBN_loop kind (IndustryIdentifiers (VolumeInfo item0))))"

subsection \<open>The resolver (main.go, lines 130-168)\<close>

text \<open>
  The composite literal evaluates its fields in order; the first panic ends it. The result
  is a panic, or the pointer returned: \<open>None\<close> for \<^verbatim>\<open>nil\<close>.
\<close>

definition mapFields :: "string \<Rightarrow> ExternalBookDetails \<Rightarrow> go_panic + BookDetails" where
  "mapFields id' externalBookDetails =
     and_then (index0 (Items externalBookDetails)) (\<lambda>item0.
     and_then (index0 (Authors (VolumeInfo item0))) (\<lambda>author.
     and_then (getPrintType externalBookDetails) (\<lambda>printType.
     and_then (getLanguage externalBookDetails) (\<lambda>language.
     and_then (getISBN ''ISBN_10'' externalBookDetails) (\<lambda>isbn10.
     and_then (getISBN ''ISBN_13'' externalBookDetails) (\<lambda>isbn13.
       Inr \<lparr>ID = id',
            Author = author,
            Year = PublishedDate (VolumeInfo item0),
            Type = printType,
            Pages = PageCount (VolumeInfo item0),
            Publisher = VolumeInfo_struct.Publisher (VolumeInfo item0),
            Language = language,
            ISBN10 = isbn10,
            ISBN13 = isbn13\<rparr>))))))"

definition fetchDetailsFromExternalService ::
  "string \<Rightarrow> string \<Rightarrow> world \<Rightarrow> (go_panic + BookDetails option) \<times> world" where
  "fetchDetailsFromExternalService isbn id' w =
     (let (got, w1) = http_Get (''https://www.googleapis.com/books/v1/volumes?q=isbn:'' @ isbn) w
      in case got of
           Inl err \<Rightarrow>
             (Inr None,
              log_Printf (''Fetching details from external service failed with error ''
                            @ err @ ''\<newline>'') w1)
         | Inr response \<Rightarrow>
             (case ReadAll response of
                Inl err \<Rightarrow>
                  (Inr None,
                   log_Printf (''Can't read response from external service with error ''
                                 @ err @ ''\<newline>'') w1)
              | Inr body \<Rightarrow>
                  (let externalBookDetails = snd (json_Unmarshal w1 body)
                   in (map_sum (\<lambda>p. p) Some (mapFields id' externalBookDetails), w1))))"

definition getBookDetails :: "string \<Rightarrow> world \<Rightarrow> (go_panic + BookDetails option) \<times> world" where
  "getBookDetails id' w =
     (if os_Getenv ''ENABLE_EXTERNAL_BOOK_SERVICE'' w = ''true''
      then fetchDetailsFromExternalService ''0486424618'' id' w
      else (Inr (Some \<lparr>ID = id', Author = ''William Shakespeare'', Year = ''1595'',
                        Type = ''paperback'', Pages = 200, Publisher = ''PublisherX'',
                        Language = ''English'', ISBN10 = ''1234567890'',
                        ISBN13 = ''123-1234567890''\<rparr>), w))"

subsection \<open>The handlers (main.go, lines 107-128)\<close>

definition Health :: "ResponseWriter \<Rightarrow> http_Request \<Rightarrow> ResponseWriter" where
  "Health rw r =
     (let rw1 = Header_Set ''Content-Type'' ''application/json'' rw;
          rw2 = WriteHeader 200 rw1
      in Write ''{'status':'Details is healthy'}'' rw2)"

text \<open>
  A handler that panics writes nothing: the panic leaves \<^verbatim>\<open>GetDetails\<close> before the first
  use of the writer.
\<close>

definition GetDetails ::
  "ResponseWriter \<Rightarrow> http_Request \<Rightarrow> world \<Rightarrow> (go_panic + ResponseWriter) \<times> world" where
  "GetDetails rw r w =
     (let params = mux_Vars r;
          id' = (case params ''id'' of None \<Rightarrow> [] | Some v \<Rightarrow> v)
      in if id' = [] then (Inr (http_Error ''please provide product id'' 400 rw), w)
         else
           (let (bookDetails, w1) = getBookDetails id' w
            in case bookDetails of
                 Inl p \<Rightarrow> (Inl p, w1)
               | Inr ptr \<Rightarrow>
                   (let rw1 = Header_Set ''Content-Type'' ''application/json'' rw;
                        rw2 = WriteHeader 200 rw1
                    in (Inr (Write (json_Encode (json_String w1) ptr) rw2), w1))))"

section \<open>Well-formed JSON\<close>

text \<open>
  A recogniser of JSON texts (RFC 8259), to say what a well-formed body is: one pass over
  the characters, with the open objects and arrays on a stack. \<open>Str k\<close> is inside a
  string literal, a member name when \<open>k\<close> holds; \<open>Lit cs\<close> is inside \<^verbatim>\<open>true\<close>,
  \<^verbatim>\<open>false\<close> or \<^verbatim>\<open>null\<close> with \<open>cs\<close> still to come; \<open>NumMinus\<close> to \<open>NumExpInt\<close> are the
  parts of a number.
\<close>

datatype json_ctx = InObject | InArray

datatype json_state =
    Value | ValueOrClose | KeyOrClose | Key | Colon | After
  | Str bool | StrEsc bool | StrHex bool nat
  | NumMinus | NumZero | NumInt | NumDot | NumFrac | NumExp | NumExpSign | NumExpInt
  | Lit string
  | Reject

definition is_ws :: "char \<Rightarrow> bool" where
  "is_ws c = (c \<in> set [CHR 0x20, CHR 0x09, CHR 0x0A, CHR 0x0D])"

definition is_digit :: "char \<Rightarrow> bool" where
  "is_digit c = (c \<in> set ''0123456789'')"

definition is_hex :: "char \<Rightarrow> bool" where
  "is_hex c = (c \<in> set ''0123456789abcdefABCDEF'')"

definition begin_value :: "char \<Rightarrow> json_ctx list \<Rightarrow> json_state \<times> json_ctx list" where
  "begin_value c stk =
     (if c = CHR ''{'' then (KeyOrClose, InObject # stk)
      else if c = CHR ''['' then (ValueOrClose, InArray # stk)
      else if c = CHR 0x22 then (Str False, stk)
      else if c = CHR ''-'' then (NumMinus, stk)
      else if c = CHR ''0'' then (NumZero, stk)
      else if is_digit c then (NumInt, stk)
      else if c = CHR ''t'' then (Lit ''rue'', stk)
      else if c = CHR ''f'' then (Lit ''alse'', stk)
      else if c = CHR ''n'' then (Lit ''ull'', stk)
      else (Reject, stk))"

definition after_value :: "char \<Rightarrow> json_ctx list \<Rightarrow> json_state \<times> json_ctx list" where
  "after_value c stk =
     (if is_ws c then (After, stk)
      else case stk of
        [] \<Rightarrow> (Reject, stk)
      | InObject # outer \<Rightarrow>
          if c = CHR '','' then (Key, stk)
          else if c = CHR ''}'' then (After, outer) else (Reject, stk)
      | InArray # outer \<Rightarrow>
          if c = CHR '','' then (Value, stk)
          else if c = CHR '']'' then (After, outer) else (Reject, stk))"

fun json_step :: "json_state \<times> json_ctx list \<Rightarrow> char \<Rightarrow> json_state \<times> json_ctx list" where
  "json_step (Value, stk) c = (if is_ws c then (Value, stk) else begin_value c stk)"
| "json_step (ValueOrClose, stk) c =
     (if is_ws c then (ValueOrClose, stk)
      else if c = CHR '']'' then (After, tl stk) else begin_value c stk)"
| "json_step (KeyOrClose, stk) c =
     (if is_ws c then (KeyOrClose, stk)
      else if c = CHR ''}'' then (After, tl stk)
      else if c = CHR 0x22 then (Str True, stk) else (Reject, stk))"
| "json_step (Key, stk) c =
     (if is_ws c then (Key, stk)
      else if c = CHR 0x22 then (Str True, stk) else (Reject, stk))"
| "json_step (Colon, stk) c =
     (if is_ws c then (Colon, stk)
      else if c = CHR '':'' then (Value, stk) else (Reject, stk))"
| "json_step (After, stk) c = after_value c stk"
| "json_step (Str k, stk) c =
     (if c = CHR 0x22 then (if k then Colon else After, stk)
      else if c = CHR 0x5C then (StrEsc k, stk)
      else if (of_char c :: nat) < 0x20 then (Reject, stk) else (Str k, stk))"
| "json_step (StrEsc k, stk) c =
     (if c \<in> set [CHR 0x22, CHR 0x5C, CHR ''/'', CHR ''b'', CHR ''f'', CHR ''n'', CHR ''r'',
                   CHR ''t'']
      then (Str k, stk)
      else if c = CHR ''u'' then (StrHex k 4, stk) else (Reject, stk))"
| "json_step (StrHex k n, stk) c =
     (if is_hex c then (if n \<le> 1 then Str k else StrHex k (n - 1), stk) else (Reject, stk))"
| "json_step (NumMinus, stk) c =
     (if c = CHR ''0'' then (NumZero, stk)
      else if is_digit c then (NumInt, stk) else (Reject, stk))"
| "json_step (NumZero, stk) c =
     (if c = CHR ''.'' then (NumDot, stk)
      else if c = CHR ''e'' \<or> c = CHR ''E'' then (NumExp, stk) else after_value c stk)"
| "json_step (NumInt, stk) c =
     (if is_digit c then (NumInt, stk)
      else if c = CHR ''.'' then (NumDot, stk)
      else if c = CHR ''e'' \<or> c = CHR ''E'' then (NumExp, stk) else after_value c stk)"
| "json_step (NumDot, stk) c = (if is_digit c then (NumFrac, stk) else (Reject, stk))"
| "json_step (NumFrac, stk) c =
     (if is_digit c then (NumFrac, stk)
      else if c = CHR ''e'' \<or> c = CHR ''E'' then (NumExp, stk) else after_value c stk)"
| "json_step (NumExp, stk) c =
     (if c = CHR ''+'' \<or> c = CHR ''-'' then (NumExpSign, stk)
      else if is_digit c then (NumExpInt, stk) else (Reject, stk))"
| "json_step (NumExpSign, stk) c = (if is_digit c then (NumExpInt, stk) else (Reject, stk))"
| "json_step (NumExpInt, stk) c = (if is_digit c then (NumExpInt, stk) else after_value c stk)"
| "json_step (Lit [], stk) c = after_value c stk"
| "json_step (Lit (x # xs), stk) c = (if c = x then (Lit xs, stk) else (Reject, stk))"
| "json_step (Reject, stk) c = (Reject, stk)"

text \<open>At the end of the text one value is complete and nothing is open.\<close>

definition json_accepting :: "json_state \<times> json_ctx list \<Rightarrow> bool" where
  "json_accepting cfg =
     (snd cfg = [] \<and> fst cfg \<in> set [After, NumZero, NumInt, NumFrac, NumExpInt, Lit []])"

definition json_valid :: "string \<Rightarrow> bool" where
  "json_valid s = json_accepting (foldl json_step (Value, []) s)"

section \<open>Sample inputs\<close>

text \<open>
  Concrete inputs on which the theorems below are instantiated: a string encoder that
  quotes without escaping (right for the strings used here), a world whose upstream and
  decoder answer the same for every URL and body, a request for a given id, and an
  upstream item.
\<close>

definition sample_String :: "string \<Rightarrow> string" where
  "sample_String s = [CHR 0x22] @ s @ [CHR 0x22]"

definition sample_world ::
  "(string \<rightharpoonup> string) \<Rightarrow> (go_error + http_Response) \<Rightarrow> (go_error option \<times> ExternalBookDetails) \<Rightarrow> world" where
  "sample_world env resp dec =
     \<lparr>Environ = env, Upstream = (\<lambda>url. resp), json_Unmarshal = (\<lambda>body. dec),
      json_String = sample_String, Requests = [], LogOutput = []\<rparr>"

definition sample_Request :: "string \<Rightarrow> http_Request" where
  "sample_Request id' = \<lparr>Method = ''GET'', Path = ''/details/'' @ id', mux_Vars = [''id'' \<mapsto> id']\<rparr>"

definition sample_Item :: "string list \<Rightarrow> Item_struct" where
  "sample_Item authors =
     zero_Item\<lparr>Item_struct.ID := ''zyTCAlFPjgYC'',
       VolumeInfo := zero_VolumeInfo\<lparr>Title := ''Hamlet'', Authors := authors,
         VolumeInfo_struct.Publisher := ''Dover'', PublishedDate := ''1992'',
         IndustryIdentifiers :=
           [\<lparr>IndustryIdentifier.Type = ''ISBN_10'', Identifier = ''111''\<rparr>,
            \<lparr>IndustryIdentifier.Type = ''ISBN_13'', Identifier = ''222''\<rparr>],
         PageCount := 128, PrintType := ''BOOK'', VolumeInfo_struct.Language := ''en''\<rparr>\<rparr>"

definition sample_External :: "Item_struct list \<Rightarrow> ExternalBookDetails" where
  "sample_External items = \<lparr>Kind = ''books#volumes'', TotalItems = int (length items), Items = items\<rparr>"

section \<open>Lemmas on the model\<close>

lemmas writer_defs = new_ResponseWriter_def Header_Set_def WriteHeader_def Write_def http_Error_def

lemmas sample_defs = sample_world_def sample_Request_def sample_Item_def sample_External_def
  sample_String_def zero_Item_def zero_VolumeInfo_def zero_ExternalBookDetails_def

lemma getBookDetails_mock:
  assumes "Environ w ''ENABLE_EXTERNAL_BOOK_SERVICE'' \<noteq> Some ''true''"
  shows "getBookDetails id' w =
     (Inr (Some \<lparr>ID = id', Author = ''William Shakespeare'', Year = ''1595'',
                  Type = ''paperback'', Pages = 200, Publisher = ''PublisherX'',
                  Language = ''English'', ISBN10 = ''1234567890'',
                  ISBN13 = ''123-1234567890''\<rparr>), w)"
  using assms by (auto simp: getBookDetails_def os_Getenv_def split: option.splits)

lemma getBookDetails_external:
  assumes "Environ w ''ENABLE_EXTERNAL_BOOK_SERVICE'' = Some ''true''"
  shows "getBookDetails id' w = fetchDetailsFromExternalService ''0486424618'' id' w"
  using assms by (simp add: getBookDetails_def os_Getenv_def)

lemma fetch_get_error:
  assumes "Upstream w (''https://www.googleapis.com/books/v1/volumes?q=isbn:'' @ isbn) = Inl err"
  shows "fetchDetailsFromExternalService isbn id' w =
    (Inr None,
     w\<lparr>Requests := Requests w @ [''https://www.googleapis.com/books/v1/volumes?q=isbn:'' @ isbn],
       LogOutput := LogOutput w @
         [''Fetching details from external service failed with error '' @ err @ ''\<newline>'']\<rparr>)"
  using assms by (simp add: fetchDetailsFromExternalService_def http_Get_def log_Printf_def)

lemma fetch_read_error:
  assumes "Upstream w (''https://www.googleapis.com/books/v1/volumes?q=isbn:'' @ isbn) =
             Inr (Response (Inl err))"
  shows "fetchDetailsFromExternalService isbn id' w =
    (Inr None,
     w\<lparr>Requests := Requests w @ [''https://www.googleapis.com/books/v1/volumes?q=isbn:'' @ isbn],
       LogOutput := LogOutput w @
         [''Can't read response from external service with error '' @ err @ ''\<newline>'']\<rparr>)"
  using assms by (simp add: fetchDetailsFromExternalService_def http_Get_def log_Printf_def)

lemma fetch_body:
  assumes "Upstream w (''https://www.googleapis.com/books/v1/volumes?q=isbn:'' @ isbn) =
             Inr (Response (Inr body))"
  shows "fetchDetailsFromExternalService isbn id' w =
    (map_sum (\<lambda>p. p) Some (mapFields id' (snd (json_Unmarshal w body))),
     w\<lparr>Requests := Requests w @ [''https://www.googleapis.com/books/v1/volumes?q=isbn:'' @ isbn]\<rparr>)"
  using assms by (simp add: fetchDetailsFromExternalService_def http_Get_def)

lemma upstream_cases:
  obtains err where "u = Inl err"
  | err where "u = Inr (Response (Inl err))"
  | body where "u = Inr (Response (Inr body))"
proof (cases u)
  case (Inl err)
  then show ?thesis using that(1) by simp
next
  case (Inr resp)
  then show ?thesis
    using that(2,3) by (cases resp; cases "ReadAll resp") auto
qed

lemma mapFields_Nil: "Items ext = [] \<Longrightarrow> mapFields id' ext = Inl IndexOutOfRange"
  by (simp add: mapFields_def index0_def and_then_def)

lemma mapFields_no_author:
  "Items ext = item # rest \<Longrightarrow> Authors (VolumeInfo item) = [] \<Longrightarrow>
   mapFields id' ext = Inl IndexOutOfRange"
  by (simp add: mapFields_def index0_def and_then_def)

lemma mapFields_Cons:
  assumes "Items ext = item # rest" and "Authors (VolumeInfo item) = author # others"
  shows "mapFields id' ext =
     Inr \<lparr>ID = id', Author = author, Year = PublishedDate (VolumeInfo item),
          Type = (if PrintType (VolumeInfo item) = ''BOOK'' then ''paperback'' else ''unknown''),
          Pages = PageCount (VolumeInfo item),
          Publisher = VolumeInfo_struct.Publisher (VolumeInfo item),
          Language = (if VolumeInfo_struct.Language (VolumeInfo item) = ''en''
                      then ''English'' else ''unknown''),
          ISBN10 = getISBN_loop ''ISBN_10'' (IndustryIdentifiers (VolumeInfo item)),
          ISBN13 = getISBN_loop ''ISBN_13'' (IndustryIdentifiers (VolumeInfo item))\<rparr>"
  using assms
  by (simp add: mapFields_def index0_def and_then_def getPrintType_def getLanguage_def
      getISBN_def)

lemma mapFields_cases:
  obtains "mapFields id' ext = Inl IndexOutOfRange"
  | item rest author others where "Items ext = item # rest"
      and "Authors (VolumeInfo item) = author # others"
proof (cases "Items ext")
  case Nil
  then show ?thesis using that(1) by (simp add: mapFields_Nil)
next
  case (Cons item rest)
  then show ?thesis
    using that by (cases "Authors (VolumeInfo item)") (simp_all add: mapFields_no_author)
qed

lemma mapFields_ID: "mapFields id' ext = Inr bd \<Longrightarrow> ID bd = id'"
  by (rule mapFields_cases[of id' ext]) (auto simp: mapFields_Cons)

lemma mapFields_reID:
  "mapFields id2 ext = map_sum (\<lambda>p. p) (\<lambda>bd. bd\<lparr>ID := id2\<rparr>) (mapFields id1 ext)"
proof (cases "Items ext")
  case Nil
  then show ?thesis by (simp add: mapFields_Nil)
next
  case (Cons item rest)
  then show ?thesis
    by (cases "Authors (VolumeInfo item)") (simp_all add: mapFields_no_author mapFields_Cons)
qed

lemma fetch_reID:
  "fst (fetchDetailsFromExternalService isbn id2 w) =
     map_sum (\<lambda>p. p) (map_option (\<lambda>bd. bd\<lparr>ID := id2\<rparr>))
       (fst (fetchDetailsFromExternalService isbn id1 w))
   \<and> snd (fetchDetailsFromExternalService isbn id2 w) = snd (fetchDetailsFromExternalService isbn id1 w)
   \<and> Requests (snd (fetchDetailsFromExternalService isbn id1 w)) =
       Requests w @ [''https://www.googleapis.com/books/v1/volumes?q=isbn:'' @ isbn]"
proof (rule upstream_cases[of "Upstream w (''https://www.googleapis.com/books/v1/volumes?q=isbn:'' @ isbn)"])
  fix err assume "Upstream w (''https://www.googleapis.com/books/v1/volumes?q=isbn:'' @ isbn) = Inl err"
  then show ?thesis by (simp add: fetch_get_error)
next
  fix err assume "Upstream w (''https://www.googleapis.com/books/v1/volumes?q=isbn:'' @ isbn) = Inr (Response (Inl err))"
  then show ?thesis by (simp add: fetch_read_error)
next
  fix body assume u: "Upstream w (''https://www.googleapis.com/books/v1/volumes?q=isbn:'' @ isbn) = Inr (Response (Inr body))"
  have "map_sum (\<lambda>p. p) Some (mapFields id2 (snd (json_Unmarshal w body))) =
     map_sum (\<lambda>p. p) (map_option (\<lambda>bd. bd\<lparr>ID := id2\<rparr>))
       (map_sum (\<lambda>p. p) Some (mapFields id1 (snd (json_Unmarshal w body))))"
    by (subst mapFields_reID[of id2 _ id1]) (cases "mapFields id1 (snd (json_Unmarshal w body))"; simp)
  then show ?thesis by (simp add: fetch_body[OF u])
qed

lemma getISBN_loop_first:
  "\<forall>y\<in>set pre. IndustryIdentifier.Type y \<noteq> kind \<Longrightarrow> IndustryIdentifier.Type x = kind \<Longrightarrow>
   getISBN_loop kind (pre @ x # post) = Identifier x"
  by (induction pre) simp_all

lemma getISBN_loop_none:
  "\<forall>y\<in>set ids. IndustryIdentifier.Type y \<noteq> kind \<Longrightarrow> getISBN_loop kind ids = ''1234567890''"
  by (induction ids) simp_all

lemma digits_200: "digits 200 = ''200''"
  by code_simp

lemma mock_body:
  "id' \<noteq> [] \<Longrightarrow> json_Encode q
              (Some \<lparr>ID = id', Author = ''William Shakespeare'', Year = ''1595'',
                  Type = ''paperback'', Pages = 200, Publisher = ''PublisherX'',
                  Language = ''English'', ISBN10 = ''1234567890'',
                  ISBN13 = ''123-1234567890''\<rparr>) =
   ''{\"id\":'' @ q id' @ '',\"author\":'' @ q ''William Shakespeare'' @ '',\"year\":'' @ q ''1595''
     @ '',\"type\":'' @ q ''paperback'' @ '',\"pages\":200,\"publisher\":'' @ q ''PublisherX''
     @ '',\"language\":'' @ q ''English'' @ '',\"ISBN-10\":'' @ q ''1234567890''
     @ '',\"ISBN-13\":'' @ q ''123-1234567890'' @ ''}\<newline>''"
  by (simp add: json_Encode_def json_Marshal_def member_string_def member_int_def itoa_def digits_200)

lemma json_Encode_Some_brace: "\<exists>rest. json_Encode q (Some b) = CHR ''{'' # rest"
  by (simp add: json_Encode_def json_Marshal_def)

lemma json_Encode_None: "json_Encode q None = ''null\<newline>''"
  by (simp add: json_Encode_def)

section \<open>The claims\<close>

text \<open>
  Claim C1. In mock mode, that is when \<^verbatim>\<open>ENABLE_EXTERNAL_BOOK_SERVICE\<close> is unset or set to
  anything but the exact string \<^verbatim>\<open>true\<close>, the details handler answers a request whose path
  id is not empty with status 200, content type \<^verbatim>\<open>application/json\<close>, and the encoding of
  the record whose ID is the id and whose other fields are the fixed mock values; the
  world is left as it was. The second conjunct spells the body out: all nine members are
  present.
\<close>

theorem mock_details:
  assumes "mux_Vars r ''id'' = Some id'" and "id' \<noteq> []"
    and "Environ w ''ENABLE_EXTERNAL_BOOK_SERVICE'' \<noteq> Some ''true''"
  shows "GetDetails new_ResponseWriter r w =
     (Inr \<lparr>Header = [''Content-Type'' \<mapsto> ''application/json''], StatusCode = Some 200,
            Body = json_Encode (json_String w)
              (Some \<lparr>ID = id', Author = ''William Shakespeare'', Year = ''1595'',
                  Type = ''paperback'', Pages = 200, Publisher = ''PublisherX'',
                  Language = ''English'', ISBN10 = ''1234567890'',
                  ISBN13 = ''123-1234567890''\<rparr>)\<rparr>, w)
    \<and> json_Encode (json_String w)
              (Some \<lparr>ID = id', Author = ''William Shakespeare'', Year = ''1595'',
                  Type = ''paperback'', Pages = 200, Publisher = ''PublisherX'',
                  Language = ''English'', ISBN10 = ''1234567890'',
                  ISBN13 = ''123-1234567890''\<rparr>) =
       ''{\"id\":'' @ json_String w id' @ '',\"author\":'' @ json_String w ''William Shakespeare''
       @ '',\"year\":'' @ json_String w ''1595'' @ '',\"type\":'' @ json_String w ''paperback''
       @ '',\"pages\":200,\"publisher\":'' @ json_String w ''PublisherX''
       @ '',\"language\":'' @ json_String w ''English''
       @ '',\"ISBN-10\":'' @ json_String w ''1234567890''
       @ '',\"ISBN-13\":'' @ json_String w ''123-1234567890'' @ ''}\<newline>''"
  using assms(1,2)
  by (simp add: GetDetails_def getBookDetails_mock[OF assms(3)] writer_defs mock_body)

theorem mock_details_witness:
  "GetDetails new_ResponseWriter (sample_Request ''7'')
     (sample_world [''ENABLE_EXTERNAL_BOOK_SERVICE'' \<mapsto> ''TRUE''] (Inl ''offline'')
        (None, zero_ExternalBookDetails)) =
     (Inr \<lparr>Header = [''Content-Type'' \<mapsto> ''application/json''], StatusCode = Some 200,
            Body = ''{\"id\":\"7\",\"author\":\"William Shakespeare\",\"year\":\"1595\",\"type\":\"paperback\",\"pages\":200,\"publisher\":\"PublisherX\",\"language\":\"English\",\"ISBN-10\":\"1234567890\",\"ISBN-13\":\"123-1234567890\"}\<newline>''\<rparr>,
      sample_world [''ENABLE_EXTERNAL_BOOK_SERVICE'' \<mapsto> ''TRUE''] (Inl ''offline'')
        (None, zero_ExternalBookDetails))"
  using mock_details[of "sample_Request ''7''" "''7''"
      "sample_world [''ENABLE_EXTERNAL_BOOK_SERVICE'' \<mapsto> ''TRUE''] (Inl ''offline'')
        (None, zero_ExternalBookDetails)"]
  by (simp add: sample_world_def sample_Request_def sample_String_def)

text \<open>
  Claim C2. In external mode, when the upstream body decodes to exactly one item whose
  industry identifiers are \<^verbatim>\<open>ISBN_10\<close> 111 and \<^verbatim>\<open>ISBN_13\<close> 222, the record the resolver
  returns has Type \<^verbatim>\<open>paperback\<close> when the print type is \<^verbatim>\<open>BOOK\<close> and \<^verbatim>\<open>unknown\<close>
  otherwise, Language \<^verbatim>\<open>English\<close> when the language code is \<^verbatim>\<open>en\<close> and \<^verbatim>\<open>unknown\<close>
  otherwise, ISBN10 111, ISBN13 222 and ID the requested id, whatever the item's own id is.
  A record is returned exactly when the item has an author; with no author the resolver
  panics.
\<close>

theorem external_mapping:
  assumes "Environ w ''ENABLE_EXTERNAL_BOOK_SERVICE'' = Some ''true''"
    and "Upstream w ''https://www.googleapis.com/books/v1/volumes?q=isbn:0486424618''
           = Inr (Response (Inr body))"
    and "Items (snd (json_Unmarshal w body)) = [item]"
    and "IndustryIdentifiers (VolumeInfo item) =
           [\<lparr>IndustryIdentifier.Type = ''ISBN_10'', Identifier = ''111''\<rparr>,
            \<lparr>IndustryIdentifier.Type = ''ISBN_13'', Identifier = ''222''\<rparr>]"
  shows "fst (getBookDetails id' w) =
     (case Authors (VolumeInfo item) of
        [] \<Rightarrow> Inl IndexOutOfRange
      | author # others \<Rightarrow>
          Inr (Some \<lparr>ID = id', Author = author, Year = PublishedDate (VolumeInfo item),
                 Type = (if PrintType (VolumeInfo item) = ''BOOK'' then ''paperback''
                         else ''unknown''),
                 Pages = PageCount (VolumeInfo item),
                 Publisher = VolumeInfo_struct.Publisher (VolumeInfo item),
                 Language = (if VolumeInfo_struct.Language (VolumeInfo item) = ''en''
                             then ''English'' else ''unknown''),
                 ISBN10 = ''111'', ISBN13 = ''222''\<rparr>))"
proof -
  have u: "Upstream w (''https://www.googleapis.com/books/v1/volumes?q=isbn:'' @ ''0486424618'')
             = Inr (Response (Inr body))"
    using assms(2) by simp
  show ?thesis
  proof (cases "Authors (VolumeInfo item)")
    case Nil
    then show ?thesis
      by (simp add: getBookDetails_external[OF assms(1)] fetch_body[OF u]
          mapFields_no_author[OF assms(3)])
  next
    case (Cons author others)
    then show ?thesis
      by (simp add: getBookDetails_external[OF assms(1)] fetch_body[OF u]
          mapFields_Cons[OF assms(3) Cons] assms(4))
  qed
qed

theorem external_mapping_witness:
  "fst (getBookDetails ''7'' (sample_world [''ENABLE_EXTERNAL_BOOK_SERVICE'' \<mapsto> ''true'']
        (Inr (Response (Inr ''{}''))) (None, sample_External [sample_Item [''William Shakespeare'']])))
     = Inr (Some \<lparr>ID = ''7'', Author = ''William Shakespeare'', Year = ''1992'',
                  Type = ''paperback'', Pages = 128, Publisher = ''Dover'',
                  Language = ''English'', ISBN10 = ''111'', ISBN13 = ''222''\<rparr>)"
  using external_mapping[of "sample_world [''ENABLE_EXTERNAL_BOOK_SERVICE'' \<mapsto> ''true'']
        (Inr (Response (Inr ''{}''))) (None, sample_External [sample_Item [''William Shakespeare'']])"
      "''{}''" "sample_Item [''William Shakespeare'']" "''7''"]
  by (simp add: sample_defs)

text \<open>
  Claim C3. Whatever the world is (mock or external mode, any upstream answer, any
  decoder), a record that the resolver returns has its ID equal to the id it was called
  with.
\<close>

theorem ID_is_path_id:
  assumes "fst (getBookDetails id' w) = Inr (Some bd)"
  shows "ID bd = id'"
proof (cases "Environ w ''ENABLE_EXTERNAL_BOOK_SERVICE'' = Some ''true''")
  case False
  with assms show ?thesis by (auto simp: getBookDetails_mock)
next
  case True
  let ?u = "Upstream w (''https://www.googleapis.com/books/v1/volumes?q=isbn:'' @ ''0486424618'')"
  show ?thesis
  proof (rule upstream_cases[of ?u])
    fix err assume "?u = Inl err"
    with assms True show ?thesis
      by (simp add: getBookDetails_external fetch_get_error)
  next
    fix err assume "?u = Inr (Response (Inl err))"
    with assms True show ?thesis
      by (simp add: getBookDetails_external fetch_read_error)
  next
    fix body assume "?u = Inr (Response (Inr body))"
    with assms True have "map_sum (\<lambda>p. p) Some (mapFields id' (snd (json_Unmarshal w body))) = Inr (Some bd)"
      by (simp add: getBookDetails_external fetch_body)
    then have "mapFields id' (snd (json_Unmarshal w body)) = Inr bd"
      by (cases "mapFields id' (snd (json_Unmarshal w body))") auto
    then show ?thesis by (rule mapFields_ID)
  qed
qed

theorem ID_is_path_id_witness:
  "fst (getBookDetails ''7'' (sample_world Map.empty (Inl ''offline'') (None, zero_ExternalBookDetails)))
     = Inr (Some \<lparr>ID = ''7'', Author = ''William Shakespeare'', Year = ''1595'',
                  Type = ''paperback'', Pages = 200, Publisher = ''PublisherX'',
                  Language = ''English'', ISBN10 = ''1234567890'',
                  ISBN13 = ''123-1234567890''\<rparr>)
   \<and> fst (getBookDetails ''7'' (sample_world [''ENABLE_EXTERNAL_BOOK_SERVICE'' \<mapsto> ''true'']
        (Inr (Response (Inr ''{}''))) (None, sample_External [sample_Item [''William Shakespeare'']])))
     = Inr (Some \<lparr>ID = ''7'', Author = ''William Shakespeare'', Year = ''1992'',
                  Type = ''paperback'', Pages = 128, Publisher = ''Dover'',
                  Language = ''English'', ISBN10 = ''111'', ISBN13 = ''222''\<rparr>)
   \<and> ID \<lparr>ID = ''7'', Author = ''William Shakespeare'', Year = ''1992'',
                  Type = ''paperback'', Pages = 128, Publisher = ''Dover'',
                  Language = ''English'', ISBN10 = ''111'', ISBN13 = ''222''\<rparr> = ''7''"
proof -
  let ?w = "sample_world [''ENABLE_EXTERNAL_BOOK_SERVICE'' \<mapsto> ''true'']
        (Inr (Response (Inr ''{}''))) (None, sample_External [sample_Item [''William Shakespeare'']])"
  let ?bd = "\<lparr>ID = ''7'', Author = ''William Shakespeare'', Year = ''1992'',
                  Type = ''paperback'', Pages = 128, Publisher = ''Dover'',
                  Language = ''English'', ISBN10 = ''111'', ISBN13 = ''222''\<rparr>"
  have ext: "fst (getBookDetails ''7'' ?w) = Inr (Some ?bd)"
    by (simp add: getBookDetails_def os_Getenv_def fetchDetailsFromExternalService_def
        http_Get_def mapFields_def index0_def and_then_def getPrintType_def getLanguage_def
        getISBN_def sample_defs)
  have mock: "fst (getBookDetails ''7'' (sample_world Map.empty (Inl ''offline'') (None, zero_ExternalBookDetails)))
     = Inr (Some \<lparr>ID = ''7'', Author = ''William Shakespeare'', Year = ''1595'',
                  Type = ''paperback'', Pages = 200, Publisher = ''PublisherX'',
                  Language = ''English'', ISBN10 = ''1234567890'',
                  ISBN13 = ''123-1234567890''\<rparr>)"
    by (simp add: getBookDetails_def os_Getenv_def sample_defs)
  from ID_is_path_id[OF ext] mock ext show ?thesis by simp
qed

text \<open>
  Claim C4. In external mode with a readable upstream body: the error that the decoder
  returns has no influence on the result, and nothing is logged; when decoding fails and
  leaves the zero value, or the decoded items list is empty, or the first item has no
  author, the resolver panics with an index out of range and returns no record.
\<close>

theorem unguarded_index:
  assumes "Environ w ''ENABLE_EXTERNAL_BOOK_SERVICE'' = Some ''true''"
    and "Upstream w ''https://www.googleapis.com/books/v1/volumes?q=isbn:0486424618''
           = Inr (Response (Inr body))"
  shows "(\<forall>e. fst (getBookDetails id' (w\<lparr>json_Unmarshal := \<lambda>b. (e, snd (json_Unmarshal w b))\<rparr>))
               = fst (getBookDetails id' w))
    \<and> LogOutput (snd (getBookDetails id' w)) = LogOutput w
    \<and> (\<forall>e. json_Unmarshal w body = (Some e, zero_ExternalBookDetails) \<longrightarrow>
            fst (getBookDetails id' w) = Inl IndexOutOfRange)
    \<and> (Items (snd (json_Unmarshal w body)) = [] \<longrightarrow>
            fst (getBookDetails id' w) = Inl IndexOutOfRange)
    \<and> (\<forall>item rest. Items (snd (json_Unmarshal w body)) = item # rest
            \<and> Authors (VolumeInfo item) = [] \<longrightarrow>
            fst (getBookDetails id' w) = Inl IndexOutOfRange)"
proof -
  have u: "Upstream w (''https://www.googleapis.com/books/v1/volumes?q=isbn:'' @ ''0486424618'')
             = Inr (Response (Inr body))"
    using assms(2) by simp
  have res: "getBookDetails id' w =
      (map_sum (\<lambda>p. p) Some (mapFields id' (snd (json_Unmarshal w body))),
       w\<lparr>Requests := Requests w @
            [''https://www.googleapis.com/books/v1/volumes?q=isbn:'' @ ''0486424618'']\<rparr>)"
    by (simp only: getBookDetails_external[OF assms(1)] fetch_body[OF u])
  have ignored: "fst (getBookDetails id' (w\<lparr>json_Unmarshal := \<lambda>b. (e, snd (json_Unmarshal w b))\<rparr>))
               = fst (getBookDetails id' w)" for e
  proof -
    let ?w' = "w\<lparr>json_Unmarshal := \<lambda>b. (e, snd (json_Unmarshal w b))\<rparr>"
    have env': "Environ ?w' ''ENABLE_EXTERNAL_BOOK_SERVICE'' = Some ''true''"
      using assms(1) by simp
    have u': "Upstream ?w' (''https://www.googleapis.com/books/v1/volumes?q=isbn:'' @ ''0486424618'')
             = Inr (Response (Inr body))"
      using u by simp
    show ?thesis
      by (simp add: getBookDetails_external[OF env'] fetch_body[OF u'] res)
  qed
  have zero: "fst (getBookDetails id' w) = Inl IndexOutOfRange"
    if "json_Unmarshal w body = (Some e, zero_ExternalBookDetails)" for e
    using that by (simp add: res mapFields_Nil zero_ExternalBookDetails_def)
  have empty: "fst (getBookDetails id' w) = Inl IndexOutOfRange"
    if "Items (snd (json_Unmarshal w body)) = []"
    using that by (simp add: res mapFields_Nil)
  have no_author: "fst (getBookDetails id' w) = Inl IndexOutOfRange"
    if "Items (snd (json_Unmarshal w body)) = item # rest" "Authors (VolumeInfo item) = []"
    for item rest
    using that by (simp add: res mapFields_no_author)
  from ignored zero empty no_author show ?thesis
    by (simp add: res)
qed

theorem unguarded_index_witness:
  "fst (getBookDetails ''7'' (sample_world [''ENABLE_EXTERNAL_BOOK_SERVICE'' \<mapsto> ''true'']
        (Inr (Response (Inr ''<html>''))) (Some ''invalid character'', zero_ExternalBookDetails)))
     = Inl IndexOutOfRange
   \<and> fst (getBookDetails ''7'' (sample_world [''ENABLE_EXTERNAL_BOOK_SERVICE'' \<mapsto> ''true'']
        (Inr (Response (Inr ''{}''))) (None, sample_External [sample_Item []])))
     = Inl IndexOutOfRange"
  using unguarded_index[of "sample_world [''ENABLE_EXTERNAL_BOOK_SERVICE'' \<mapsto> ''true'']
        (Inr (Response (Inr ''<html>''))) (Some ''invalid character'', zero_ExternalBookDetails)"
        "''<html>''" "''7''"]
    unguarded_index[of "sample_world [''ENABLE_EXTERNAL_BOOK_SERVICE'' \<mapsto> ''true'']
        (Inr (Response (Inr ''{}''))) (None, sample_External [sample_Item []])"
        "''{}''" "''7''"]
  by (simp add: sample_defs)

text \<open>
  Claim C5. In external mode, when the outbound request fails or the body of the response
  cannot be read, the resolver returns nil, one message carrying the error is logged, and
  the handler answers status 200, content type \<^verbatim>\<open>application/json\<close> and the body
  \<^verbatim>\<open>null\<close> followed by a newline.
\<close>

theorem upstream_failure_null_200:
  assumes "mux_Vars r ''id'' = Some id'" and "id' \<noteq> []"
    and "Environ w ''ENABLE_EXTERNAL_BOOK_SERVICE'' = Some ''true''"
    and "Upstream w ''https://www.googleapis.com/books/v1/volumes?q=isbn:0486424618'' = Inl err
       \<or> Upstream w ''https://www.googleapis.com/books/v1/volumes?q=isbn:0486424618''
            = Inr (Response (Inl err))"
  shows "fst (getBookDetails id' w) = Inr None
    \<and> LogOutput (snd (getBookDetails id' w)) = LogOutput w @
        [(if Upstream w ''https://www.googleapis.com/books/v1/volumes?q=isbn:0486424618'' = Inl err
          then ''Fetching details from external service failed with error ''
          else ''Can't read response from external service with error '') @ err @ ''\<newline>'']
    \<and> fst (GetDetails new_ResponseWriter r w) =
        Inr \<lparr>Header = [''Content-Type'' \<mapsto> ''application/json''], StatusCode = Some 200,
             Body = ''null\<newline>''\<rparr>"
  using assms(4)
proof
  assume "Upstream w ''https://www.googleapis.com/books/v1/volumes?q=isbn:0486424618'' = Inl err"
  then have u: "Upstream w (''https://www.googleapis.com/books/v1/volumes?q=isbn:'' @ ''0486424618'') = Inl err"
    by simp
  show ?thesis
    using assms(1,2) u
    by (simp add: GetDetails_def getBookDetails_external[OF assms(3)] fetch_get_error[OF u]
        writer_defs json_Encode_None)
next
  assume "Upstream w ''https://www.googleapis.com/books/v1/volumes?q=isbn:0486424618''
            = Inr (Response (Inl err))"
  then have u: "Upstream w (''https://www.googleapis.com/books/v1/volumes?q=isbn:'' @ ''0486424618'') = Inr (Response (Inl err))"
    by simp
  show ?thesis
    using assms(1,2) u
    by (simp add: GetDetails_def getBookDetails_external[OF assms(3)] fetch_read_error[OF u]
        writer_defs json_Encode_None)
qed

theorem upstream_failure_null_200_witness:
  "fst (GetDetails new_ResponseWriter (sample_Request ''7'')
     (sample_world [''ENABLE_EXTERNAL_BOOK_SERVICE'' \<mapsto> ''true''] (Inl ''dial tcp: timeout'')
        (None, zero_ExternalBookDetails))) =
        Inr \<lparr>Header = [''Content-Type'' \<mapsto> ''application/json''], StatusCode = Some 200,
             Body = ''null\<newline>''\<rparr>
   \<and> LogOutput (snd (getBookDetails ''7''
     (sample_world [''ENABLE_EXTERNAL_BOOK_SERVICE'' \<mapsto> ''true''] (Inl ''dial tcp: timeout'')
        (None, zero_ExternalBookDetails)))) =
       [''Fetching details from external service failed with error dial tcp: timeout\<newline>'']
   \<and> fst (GetDetails new_ResponseWriter (sample_Request ''7'')
     (sample_world [''ENABLE_EXTERNAL_BOOK_SERVICE'' \<mapsto> ''true''] (Inr (Response (Inl ''unexpected EOF'')))
        (None, zero_ExternalBookDetails))) =
        Inr \<lparr>Header = [''Content-Type'' \<mapsto> ''application/json''], StatusCode = Some 200,
             Body = ''null\<newline>''\<rparr>
   \<and> LogOutput (snd (getBookDetails ''7''
     (sample_world [''ENABLE_EXTERNAL_BOOK_SERVICE'' \<mapsto> ''true''] (Inr (Response (Inl ''unexpected EOF'')))
        (None, zero_ExternalBookDetails)))) =
       [''Can't read response from external service with error unexpected EOF\<newline>'']"
  using upstream_failure_null_200[of "sample_Request ''7''" "''7''"
      "sample_world [''ENABLE_EXTERNAL_BOOK_SERVICE'' \<mapsto> ''true''] (Inl ''dial tcp: timeout'')
        (None, zero_ExternalBookDetails)" "''dial tcp: timeout''"]
    upstream_failure_null_200[of "sample_Request ''7''" "''7''"
      "sample_world [''ENABLE_EXTERNAL_BOOK_SERVICE'' \<mapsto> ''true''] (Inr (Response (Inl ''unexpected EOF'')))
        (None, zero_ExternalBookDetails)" "''unexpected EOF''"]
  by (simp add: sample_world_def sample_Request_def)

text \<open>
  Claim C6. For every request the health handler answers status 200 and content type
  \<^verbatim>\<open>application/json\<close>, but the body it writes quotes its name and its string with
  single quotes and is not a JSON text; the same text with double quotes is one.
\<close>

theorem Health_body_malformed:
  "Health new_ResponseWriter r =
     \<lparr>Header = [''Content-Type'' \<mapsto> ''application/json''], StatusCode = Some 200,
      Body = ''{'status':'Details is healthy'}''\<rparr>
   \<and> \<not> json_valid (Body (Health new_ResponseWriter r))
   \<and> json_valid ''{\"status\":\"Details is healthy\"}''"
proof -
  have 1: "Health new_ResponseWriter r =
     \<lparr>Header = [''Content-Type'' \<mapsto> ''application/json''], StatusCode = Some 200,
      Body = ''{'status':'Details is healthy'}''\<rparr>"
    by (simp add: Health_def writer_defs)
  have 2: "\<not> json_valid ''{'status':'Details is healthy'}''"
    by code_simp
  have 3: "json_valid ''{\"status\":\"Details is healthy\"}''"
    by code_simp
  from 1 2 3 show ?thesis by simp
qed

text \<open>
  Claim C7. In external mode the resolver fetches the URL of the fixed ISBN 0486424618
  whatever the requested id is; for two ids in the same world the effects are the same and
  the result for the second id is the result for the first with the ID field replaced.
\<close>

theorem external_fixed_isbn:
  assumes "Environ w ''ENABLE_EXTERNAL_BOOK_SERVICE'' = Some ''true''"
  shows "Requests (snd (getBookDetails id1 w)) =
           Requests w @ [''https://www.googleapis.com/books/v1/volumes?q=isbn:0486424618'']
    \<and> snd (getBookDetails id2 w) = snd (getBookDetails id1 w)
    \<and> fst (getBookDetails id2 w) =
        map_sum (\<lambda>p. p) (map_option (\<lambda>bd. bd\<lparr>ID := id2\<rparr>)) (fst (getBookDetails id1 w))"
  using fetch_reID[of "''0486424618''" id2 w id1]
  by (simp add: getBookDetails_external[OF assms])

theorem external_fixed_isbn_witness:
  "Requests (snd (getBookDetails ''7'' (sample_world [''ENABLE_EXTERNAL_BOOK_SERVICE'' \<mapsto> ''true'']
        (Inr (Response (Inr ''{}''))) (None, sample_External [sample_Item [''William Shakespeare'']]))))
     = [''https://www.googleapis.com/books/v1/volumes?q=isbn:0486424618'']
   \<and> fst (getBookDetails ''8'' (sample_world [''ENABLE_EXTERNAL_BOOK_SERVICE'' \<mapsto> ''true'']
        (Inr (Response (Inr ''{}''))) (None, sample_External [sample_Item [''William Shakespeare'']])))
     = Inr (Some \<lparr>ID = ''8'', Author = ''William Shakespeare'', Year = ''1992'',
                  Type = ''paperback'', Pages = 128, Publisher = ''Dover'',
                  Language = ''English'', ISBN10 = ''111'', ISBN13 = ''222''\<rparr>)"
proof -
  let ?w = "sample_world [''ENABLE_EXTERNAL_BOOK_SERVICE'' \<mapsto> ''true'']
        (Inr (Response (Inr ''{}''))) (None, sample_External [sample_Item [''William Shakespeare'']])"
  have env: "Environ ?w ''ENABLE_EXTERNAL_BOOK_SERVICE'' = Some ''true''"
    by (simp add: sample_world_def)
  have one: "fst (getBookDetails ''7'' ?w) =
      Inr (Some \<lparr>ID = ''7'', Author = ''William Shakespeare'', Year = ''1992'',
                  Type = ''paperback'', Pages = 128, Publisher = ''Dover'',
                  Language = ''English'', ISBN10 = ''111'', ISBN13 = ''222''\<rparr>)"
    by (simp add: getBookDetails_def os_Getenv_def fetchDetailsFromExternalService_def
        http_Get_def mapFields_def index0_def and_then_def getPrintType_def getLanguage_def
        getISBN_def sample_defs)
  have req: "Requests ?w = []"
    by (simp add: sample_world_def)
  from external_fixed_isbn[OF env, of "''7''" "''8''"] one req show ?thesis by simp
qed

text \<open>
  Claim C8. When the decoded value has a first item, \<^verbatim>\<open>getISBN\<close> returns the identifier
  of the first entry of that item's industry identifiers whose type is the kind asked for,
  and \<^verbatim>\<open>1234567890\<close> when no entry has that type (in particular when the list is
  empty). This holds for every kind, so for \<^verbatim>\<open>ISBN_10\<close> and \<^verbatim>\<open>ISBN_13\<close>.
\<close>

theorem getISBN_first_match:
  assumes "Items ext = item # rest"
  shows "(\<forall>pre x post. IndustryIdentifiers (VolumeInfo item) = pre @ x # post
            \<and> (\<forall>y\<in>set pre. IndustryIdentifier.Type y \<noteq> kind)
            \<and> IndustryIdentifier.Type x = kind \<longrightarrow>
            getISBN kind ext = Inr (Identifier x))
    \<and> ((\<forall>y\<in>set (IndustryIdentifiers (VolumeInfo item)). IndustryIdentifier.Type y \<noteq> kind) \<longrightarrow>
            getISBN kind ext = Inr ''1234567890'')"
  using assms
  by (auto simp: getISBN_def index0_def and_then_def getISBN_loop_first getISBN_loop_none)

theorem getISBN_first_match_witness:
  "getISBN ''ISBN_13'' (sample_External [sample_Item []]) = Inr ''222''
   \<and> getISBN ''ISSN'' (sample_External [sample_Item []]) = Inr ''1234567890''"
proof -
  let ?item = "sample_Item []"
  have items: "Items (sample_External [?item]) = ?item # []"
    by (simp add: sample_External_def)
  have ids: "IndustryIdentifiers (VolumeInfo ?item) =
      [\<lparr>IndustryIdentifier.Type = ''ISBN_10'', Identifier = ''111''\<rparr>] @
       \<lparr>IndustryIdentifier.Type = ''ISBN_13'', Identifier = ''222''\<rparr> # []"
    by (simp add: sample_defs)
  have "getISBN ''ISBN_13'' (sample_External [?item]) =
          Inr (Identifier \<lparr>IndustryIdentifier.Type = ''ISBN_13'', Identifier = ''222''\<rparr>)"
    using getISBN_first_match[OF items, of "''ISBN_13''", THEN conjunct1, rule_format,
        of "[\<lparr>IndustryIdentifier.Type = ''ISBN_10'', Identifier = ''111''\<rparr>]"
           "\<lparr>IndustryIdentifier.Type = ''ISBN_13'', Identifier = ''222''\<rparr>" "[]"] ids
    by simp
  moreover from getISBN_first_match[OF items, of "''ISSN''"]
  have "getISBN ''ISSN'' (sample_External [?item]) = Inr ''1234567890''"
    by (simp add: sample_defs)
  ultimately show ?thesis by simp
qed

text \<open>
  Claim C9. When the path id is empty (the route variable is missing or is the empty
  string), the details handler answers status 400 with a plain-text message, in every
  world, and leaves the world as it was: nothing is fetched and nothing is logged.
\<close>

theorem empty_id_bad_request:
  assumes "mux_Vars r ''id'' = None \<or> mux_Vars r ''id'' = Some []"
  shows "GetDetails new_ResponseWriter r w =
     (Inr \<lparr>Header = [''Content-Type'' \<mapsto> ''text/plain; charset=utf-8'',
                      ''X-Content-Type-Options'' \<mapsto> ''nosniff''],
            StatusCode = Some 400,
            Body = ''please provide product id\<newline>''\<rparr>, w)"
  using assms by (auto simp: GetDetails_def writer_defs)

theorem empty_id_bad_request_witness:
  "GetDetails new_ResponseWriter (sample_Request [])
     (sample_world [''ENABLE_EXTERNAL_BOOK_SERVICE'' \<mapsto> ''true''] (Inl ''offline'')
        (None, zero_ExternalBookDetails)) =
     (Inr \<lparr>Header = [''Content-Type'' \<mapsto> ''text/plain; charset=utf-8'',
                      ''X-Content-Type-Options'' \<mapsto> ''nosniff''],
            StatusCode = Some 400,
            Body = ''please provide product id\<newline>''\<rparr>,
      sample_world [''ENABLE_EXTERNAL_BOOK_SERVICE'' \<mapsto> ''true''] (Inl ''offline'')
        (None, zero_ExternalBookDetails))"
  using empty_id_bad_request[of "sample_Request []"
      "sample_world [''ENABLE_EXTERNAL_BOOK_SERVICE'' \<mapsto> ''true''] (Inl ''offline'')
        (None, zero_ExternalBookDetails)"]
  by (simp add: sample_Request_def)

text \<open>
  Claim C10. In mock mode the resolver returns a record, never nil, for every id, the
  empty one included, and every response of the details handler has a body other than
  \<^verbatim>\<open>null\<close>.
\<close>

theorem mock_never_nil:
  assumes "Environ w ''ENABLE_EXTERNAL_BOOK_SERVICE'' \<noteq> Some ''true''"
  shows "(\<exists>bd. getBookDetails id' w = (Inr (Some bd), w))
    \<and> fst (getBookDetails id' w) \<noteq> Inr None
    \<and> (\<forall>r. \<exists>rw'. fst (GetDetails new_ResponseWriter r w) = Inr rw'
              \<and> Body rw' \<noteq> ''null'' \<and> Body rw' \<noteq> ''null\<newline>'')"
proof -
  have "\<exists>rw'. fst (GetDetails new_ResponseWriter r w) = Inr rw'
              \<and> Body rw' \<noteq> ''null'' \<and> Body rw' \<noteq> ''null\<newline>''" for r
  proof (cases "mux_Vars r ''id'' = None \<or> mux_Vars r ''id'' = Some []")
    case True
    then show ?thesis by (auto simp: GetDetails_def writer_defs)
  next
    case False
    then obtain id' where id: "mux_Vars r ''id'' = Some id'" "id' \<noteq> []" by auto
    obtain rest where "json_Encode (json_String w)
        (Some \<lparr>ID = id', Author = ''William Shakespeare'', Year = ''1595'',
                  Type = ''paperback'', Pages = 200, Publisher = ''PublisherX'',
                  Language = ''English'', ISBN10 = ''1234567890'',
                  ISBN13 = ''123-1234567890''\<rparr>) = CHR ''{'' # rest"
      using json_Encode_Some_brace by blast
    with id show ?thesis
      by (simp add: GetDetails_def getBookDetails_mock[OF assms] writer_defs)
  qed
  then show ?thesis by (simp add: getBookDetails_mock[OF assms])
qed

theorem mock_never_nil_witness:
  "fst (getBookDetails [] (sample_world Map.empty (Inl ''offline'') (None, zero_ExternalBookDetails)))
     \<noteq> Inr None"
  using mock_never_nil[of "sample_world Map.empty (Inl ''offline'') (None, zero_ExternalBookDetails)" "[]"]
  by (simp add: sample_world_def)

end
